theory Spec2Isabelle
  imports Complex_Main "HOL-Library.Char_ord" "HOL-Library.List_Lexorder"
    "HOL-Library.Product_Lexorder" "HOL-Library.Multiset"
begin

section \<open>Frequency response analysis of the DSP filter chain\<close>

text \<open>
  The embedding follows \<^verbatim>\<open>frequency_response_analysis.py\<close>. Python floats are
  idealised as real numbers and numpy complex values as complex numbers: comparisons
  and arithmetic are the exact ones, rounding is not modelled. A property that rounding
  decides, such as a strict inequality between two values less than a rounding step
  apart, is therefore not stated below. The non-finite values of numpy are modelled
  where decibel values are computed and consumed: the \<^verbatim>\<open>-inf\<close> of
  \<^verbatim>\<open>np.log10(0)\<close>, and the infinities and \<^verbatim>\<open>nan\<close> that the ripple statistics make
  of it. A division by zero inside numpy array arithmetic gives \<^verbatim>\<open>inf\<close> or \<^verbatim>\<open>nan\<close> with a
  warning, where HOL's division gives 0: the responses below are meant for a non-zero
  sample rate and for grid points where the denominator of the transfer function does
  not vanish. A division of Python numbers by zero raises, and is modelled as an error.

  The three filter classes each have fields \<^verbatim>\<open>b\<close> and \<^verbatim>\<open>a\<close>; the records name
  them \<open>pre_b\<close>, \<open>notch_b\<close>, \<open>up_b\<close> and so on, and the field \<^verbatim>\<open>fs\<close> of the
  notch filter \<open>notch_fs\<close>.
\<close>

subsection \<open>Quality rating (the if/elif chain of \<^verbatim>\<open>main\<close>)\<close>

text \<open>
  The grades are the strings \<^verbatim>\<open>"EXCELLENT"\<close>, \<^verbatim>\<open>"VERY GOOD"\<close>, \<^verbatim>\<open>"GOOD"\<close>,
  \<^verbatim>\<open>"FAIR"\<close> and \<^verbatim>\<open>"POOR"\<close> of the source.
\<close>

datatype QualityGrade = EXCELLENT | VERY_GOOD | GOOD | FAIR | POOR

definition quality :: "real \<Rightarrow> QualityGrade" where
  "quality ripple_db =
     (if ripple_db < 0.1 then EXCELLENT
      else if ripple_db < 0.5 then VERY_GOOD
      else if ripple_db < 1.0 then GOOD
      else if ripple_db < 2.0 then FAIR
      else POOR)"

subsection \<open>Errors and non-finite values\<close>

text \<open>
  The exceptions the script can raise: Python's division of numbers by zero, and the two
  numpy raises on the path of the ripple computation (a boolean mask of the wrong length,
  a reduction over an empty array). The library design routines raise \<open>ValueError\<close>
  on arguments they refuse.
\<close>

datatype error = ZeroDivisionError | ValueError | IndexError

text \<open>
  A value of a numpy float array: a finite number, an infinity or \<^verbatim>\<open>nan\<close>.
  \<^verbatim>\<open>np.log10\<close> returns \<^verbatim>\<open>-inf\<close> at zero and \<^verbatim>\<open>nan\<close> below zero (with a warning,
  not an exception).
\<close>

datatype npfloat = Finite real | NegInf | PosInf | NaN

definition np_log10 :: "real \<Rightarrow> npfloat" where
  "np_log10 x = (if x < 0 then NaN else if x = 0 then NegInf else Finite (log 10 x))"

fun times20 :: "npfloat \<Rightarrow> npfloat" where
  "times20 (Finite x) = Finite (20 * x)"
| "times20 NegInf = NegInf"
| "times20 PosInf = PosInf"
| "times20 NaN = NaN"

fun is_finite :: "npfloat \<Rightarrow> bool" where
  "is_finite (Finite x) = True"
| "is_finite NegInf = False"
| "is_finite PosInf = False"
| "is_finite NaN = False"

text \<open>The expression \<^verbatim>\<open>20 * np.log10(np.abs(H))\<close>, shared by every magnitude_db.\<close>

definition db_of_response :: "complex list \<Rightarrow> npfloat list" where
  "db_of_response H = map (\<lambda>h. times20 (np_log10 (cmod h))) H"

subsection \<open>Library routine: frequency response of a rational transfer function\<close>

text \<open>
  \<^verbatim>\<open>scipy.signal.freqz(b, a, worN=frequencies, fs=fs)\<close> is a library routine. It is
  modelled by its contract: the value of
  \<open>(b\<^sub>0 + b\<^sub>1 z\<^sup>-\<^sup>1 + ...) / (a\<^sub>0 + a\<^sub>1 z\<^sup>-\<^sup>1 + ...)\<close> at \<open>z = e\<^sup>j\<^sup>w\<close>,
  \<open>w = 2 pi f / fs\<close>, for each requested frequency.
\<close>

fun poly_zinv :: "real list \<Rightarrow> complex \<Rightarrow> complex" where
  "poly_zinv [] w = 0"
| "poly_zinv (c # cs) w = of_real c + w * poly_zinv cs w"

definition freqz :: "real list \<Rightarrow> real list \<Rightarrow> real list \<Rightarrow> real \<Rightarrow> complex list" where
  "freqz b a worN fs =
     map (\<lambda>f. let w = exp (- \<i> * of_real (2 * pi * f / fs))
              in poly_zinv b w / poly_zinv a w) worN"

subsection \<open>PreEmphasisFilter\<close>

record PreEmphasisFilter =
  gain :: real
  alpha :: real
  pre_b :: "real list"
  pre_a :: "real list"

text \<open>\<^verbatim>\<open>__init__\<close> takes no argument: gain and alpha are the constants 3.0 and 0.6592.\<close>

definition PreEmphasisFilter_init :: PreEmphasisFilter where
  "PreEmphasisFilter_init =
     (let g = 3.0; al = 0.6592
      in \<lparr>gain = g, alpha = al, pre_b = [g, - g * al], pre_a = [1.0]\<rparr>)"

definition PreEmphasisFilter_frequency_response ::
  "PreEmphasisFilter \<Rightarrow> real list \<Rightarrow> real \<Rightarrow> complex list" where
  "PreEmphasisFilter_frequency_response self frequencies fs =
     map (\<lambda>f. let omega = 2 * pi * f / fs
              in of_real (gain self) * (1 - of_real (alpha self) * exp (- \<i> * of_real omega)))
         frequencies"

definition PreEmphasisFilter_magnitude_db ::
  "PreEmphasisFilter \<Rightarrow> real list \<Rightarrow> real \<Rightarrow> npfloat list" where
  "PreEmphasisFilter_magnitude_db self frequencies fs =
     db_of_response (PreEmphasisFilter_frequency_response self frequencies fs)"

subsection \<open>NotchFilter\<close>

record NotchFilter =
  f_notch :: real
  Q :: real
  notch_fs :: real
  notch_b :: "real list"
  notch_a :: "real list"

text \<open>
  The constructor computes \<^verbatim>\<open>w0 = 2 * np.pi * f_notch / fs\<close> and
  \<^verbatim>\<open>bandwidth_hz = f_notch / Q\<close> on Python numbers (both unused afterwards; each raises
  ZeroDivisionError on a zero divisor) and then takes the coefficients from the library
  routine \<^verbatim>\<open>signal.iirnotch(f_notch, Q, fs)\<close>, a parameter of the model.
\<close>

type_synonym iirnotch_routine = "real \<Rightarrow> real \<Rightarrow> real \<Rightarrow> error + (real list \<times> real list)"

definition NotchFilter_init ::
  "iirnotch_routine \<Rightarrow> real \<Rightarrow> real \<Rightarrow> real \<Rightarrow> error + NotchFilter" where
  "NotchFilter_init iirnotch fn q fs =
     (if fs = 0 then Inl ZeroDivisionError
      else if q = 0 then Inl ZeroDivisionError
      else case iirnotch fn q fs of
             Inl e \<Rightarrow> Inl e
           | Inr (b, a) \<Rightarrow>
               Inr \<lparr>f_notch = fn, Q = q, notch_fs = fs, notch_b = b, notch_a = a\<rparr>)"

definition NotchFilter_frequency_response ::
  "NotchFilter \<Rightarrow> real list \<Rightarrow> real \<Rightarrow> complex list" where
  "NotchFilter_frequency_response self frequencies fs =
     freqz (notch_b self) (notch_a self) frequencies fs"

definition NotchFilter_magnitude_db :: "NotchFilter \<Rightarrow> real list \<Rightarrow> real \<Rightarrow> npfloat list" where
  "NotchFilter_magnitude_db self frequencies fs =
     db_of_response (NotchFilter_frequency_response self frequencies fs)"

subsection \<open>PolyphaseFIRUpsampler\<close>

record PolyphaseFIRUpsampler =
  L :: int
  num_taps :: int
  cutoff_hz :: real
  fs_in :: real
  fs_out :: real
  h :: "real list"
  up_b :: "real list"
  up_a :: "real list"

text \<open>
  The taps come from the library routine
  \<^verbatim>\<open>signal.firwin(num_taps, cutoff_normalized, window=('kaiser', beta), scale=True)\<close>,
  a parameter of the model (arguments: number of taps, normalised cutoff, Kaiser beta).
  The constructor's own work is the normalisation of the cutoff (a division by
  \<^verbatim>\<open>fs_out / 2\<close>) and the multiplication of every tap by \<^verbatim>\<open>L\<close>.
\<close>

type_synonym firwin_routine = "int \<Rightarrow> real \<Rightarrow> real \<Rightarrow> error + real list"

definition PolyphaseFIRUpsampler_init ::
  "firwin_routine \<Rightarrow> int \<Rightarrow> int \<Rightarrow> real \<Rightarrow> real \<Rightarrow> error + PolyphaseFIRUpsampler" where
  "PolyphaseFIRUpsampler_init firwin upsample_factor n cutoff fsi =
     (let fso = fsi * of_int upsample_factor
      in if fso / 2 = 0 then Inl ZeroDivisionError
         else let cutoff_normalized = cutoff / (fso / 2); beta = 8.5
              in case firwin n cutoff_normalized beta of
                   Inl e \<Rightarrow> Inl e
                 | Inr taps \<Rightarrow>
                     (let hs = map (\<lambda>t. of_int upsample_factor * t) taps
                      in Inr \<lparr>L = upsample_factor, num_taps = n, cutoff_hz = cutoff,
                              fs_in = fsi, fs_out = fso, h = hs, up_b = hs, up_a = [1.0]\<rparr>))"

text \<open>The response is evaluated at the output rate; the argument \<^verbatim>\<open>fs\<close> is not used.\<close>

definition PolyphaseFIRUpsampler_frequency_response ::
  "PolyphaseFIRUpsampler \<Rightarrow> real list \<Rightarrow> real \<Rightarrow> complex list" where
  "PolyphaseFIRUpsampler_frequency_response self frequencies fs =
     freqz (up_b self) (up_a self) frequencies (fs_out self)"

definition PolyphaseFIRUpsampler_magnitude_db ::
  "PolyphaseFIRUpsampler \<Rightarrow> real list \<Rightarrow> real \<Rightarrow> npfloat list" where
  "PolyphaseFIRUpsampler_magnitude_db self frequencies fs =
     db_of_response (PolyphaseFIRUpsampler_frequency_response self frequencies fs)"

subsection \<open>Sample design routines\<close>

text \<open>
  Two concrete design routines, to run the constructors on concrete input. The first
  returns the second-order notch with quality factor 1 at a quarter of the sample rate
  (numerator \<open>1/2 + 1/2 z\<^sup>-\<^sup>2\<close>, denominator 1), the second \<open>n\<close> equal taps of
  unit sum. Both refuse the arguments such a routine cannot design for. Every theorem
  below holds for all routines; these two only serve as instances.
\<close>

definition sample_iirnotch :: iirnotch_routine where
  "sample_iirnotch w0 q fs =
     (if fs \<le> 0 \<or> w0 < 0 \<or> fs / 2 < w0 then Inl ValueError
      else Inr ([1/2, 0, 1/2], [1, 0, 0]))"

definition sample_firwin :: firwin_routine where
  "sample_firwin numtaps cutoff beta =
     (if numtaps < 1 \<or> cutoff \<le> 0 \<or> 1 \<le> cutoff then Inl ValueError
      else Inr (replicate (nat numtaps) (1 / of_int numtaps)))"

subsection \<open>analyze_cascade\<close>

record CascadeResponses =
  H1 :: "complex list"
  H2 :: "complex list"
  H3 :: "complex list"
  H_total :: "complex list"
  mag_linear :: "real list"
  mag_db :: "npfloat list"
  phase_rad :: "real list"
  phase_deg :: "real list"

record CascadeResult = CascadeResponses +
  preemph :: PreEmphasisFilter
  notch :: NotchFilter
  upsampler :: PolyphaseFIRUpsampler

text \<open>
  The second half of \<^verbatim>\<open>analyze_cascade\<close>, from \<^verbatim>\<open>H_total = H1 * H2 * H3\<close> to the
  numeric entries of the returned dictionary, given the three stage responses. The
  product of numpy arrays is elementwise and associates to the left; \<^verbatim>\<open>np.angle\<close> is
  the principal argument in \<open>(-pi, pi]\<close>, zero at zero; \<^verbatim>\<open>np.degrees\<close> multiplies
  by \<open>180 / pi\<close>.
\<close>

definition cascade_result :: "complex list \<Rightarrow> complex list \<Rightarrow> complex list \<Rightarrow> CascadeResponses" where
  "cascade_result h1 h2 h3 =
     (let ht = map2 (*) (map2 (*) h1 h2) h3;
          ml = map cmod ht;
          md = map (\<lambda>m. times20 (np_log10 m)) ml;
          pr = map Arg ht;
          pd = map (\<lambda>x. x * 180 / pi) pr
      in \<lparr>H1 = h1, H2 = h2, H3 = h3, H_total = ht, mag_linear = ml, mag_db = md,
          phase_rad = pr, phase_deg = pd\<rparr>)"

definition analyze_cascade ::
  "iirnotch_routine \<Rightarrow> firwin_routine \<Rightarrow> real list \<Rightarrow> real \<Rightarrow> error + CascadeResult" where
  "analyze_cascade iirnotch firwin frequencies fs =
     (let p = PreEmphasisFilter_init
      in case NotchFilter_init iirnotch 19000 25 fs of
           Inl e \<Rightarrow> Inl e
         | Inr n \<Rightarrow>
             (case PolyphaseFIRUpsampler_init firwin 4 96 15000 fs of
                Inl e \<Rightarrow> Inl e
              | Inr u \<Rightarrow>
                  (let r = cascade_result
                             (PreEmphasisFilter_frequency_response p frequencies fs)
                             (NotchFilter_frequency_response n frequencies fs)
                             (PolyphaseFIRUpsampler_frequency_response u frequencies fs)
                   in Inr \<lparr>H1 = H1 r, H2 = H2 r, H3 = H3 r, H_total = H_total r,
                           mag_linear = mag_linear r, mag_db = mag_db r,
                           phase_rad = phase_rad r, phase_deg = phase_deg r,
                           preemph = p, notch = n, upsampler = u\<rparr>)))"

subsection \<open>compute_passband_ripple\<close>

text \<open>
  The magnitude series is a numpy float array, so it may hold \<^verbatim>\<open>-inf\<close> (the decibel
  value of a zero response); the grid and the passband limits are finite numbers. The
  arithmetic numpy applies to the series follows IEEE 754 on the non-finite values:
  \<^verbatim>\<open>nan\<close> propagates through every operation and through \<^verbatim>\<open>np.max\<close> and
  \<^verbatim>\<open>np.min\<close>, and the difference of two equal infinities is \<^verbatim>\<open>nan\<close>.
\<close>

fun np_less :: "npfloat \<Rightarrow> npfloat \<Rightarrow> bool" where
  "np_less (Finite a) (Finite b) = (a < b)"
| "np_less NegInf (Finite b) = True"
| "np_less NegInf PosInf = True"
| "np_less (Finite a) PosInf = True"
| "np_less a b = False"

definition np_maximum :: "npfloat \<Rightarrow> npfloat \<Rightarrow> npfloat" where
  "np_maximum a b = (if a = NaN \<or> b = NaN then NaN else if np_less a b then b else a)"

definition np_minimum :: "npfloat \<Rightarrow> npfloat \<Rightarrow> npfloat" where
  "np_minimum a b = (if a = NaN \<or> b = NaN then NaN else if np_less b a then b else a)"

fun np_add :: "npfloat \<Rightarrow> npfloat \<Rightarrow> npfloat" where
  "np_add (Finite a) (Finite b) = Finite (a + b)"
| "np_add NaN b = NaN"
| "np_add a NaN = NaN"
| "np_add PosInf NegInf = NaN"
| "np_add NegInf PosInf = NaN"
| "np_add PosInf b = PosInf"
| "np_add a PosInf = PosInf"
| "np_add NegInf b = NegInf"
| "np_add a NegInf = NegInf"

fun np_neg :: "npfloat \<Rightarrow> npfloat" where
  "np_neg (Finite a) = Finite (- a)"
| "np_neg NegInf = PosInf"
| "np_neg PosInf = NegInf"
| "np_neg NaN = NaN"

definition np_sub :: "npfloat \<Rightarrow> npfloat \<Rightarrow> npfloat" where
  "np_sub a b = np_add a (np_neg b)"

fun np_square :: "npfloat \<Rightarrow> npfloat" where
  "np_square (Finite a) = Finite (a * a)"
| "np_square NegInf = PosInf"
| "np_square PosInf = PosInf"
| "np_square NaN = NaN"

fun np_sqrt :: "npfloat \<Rightarrow> npfloat" where
  "np_sqrt (Finite a) = (if a < 0 then NaN else Finite (sqrt a))"
| "np_sqrt NegInf = NaN"
| "np_sqrt PosInf = PosInf"
| "np_sqrt NaN = NaN"

text \<open>Division of a sum by the number of elements; \<open>0 / 0\<close> is \<^verbatim>\<open>nan\<close>.\<close>

fun np_div_count :: "npfloat \<Rightarrow> nat \<Rightarrow> npfloat" where
  "np_div_count (Finite a) n = (if n = 0 then NaN else Finite (a / real n))"
| "np_div_count NegInf n = NegInf"
| "np_div_count PosInf n = PosInf"
| "np_div_count NaN n = NaN"

text \<open>
  Indexing an array with a boolean mask of another length raises IndexError;
  \<^verbatim>\<open>np.max\<close> and \<^verbatim>\<open>np.min\<close> of an empty array raise ValueError. \<^verbatim>\<open>np.mean\<close> is
  the sum over the count, \<^verbatim>\<open>np.std\<close> the square root of the mean of the squared
  deviations from the mean (the population standard deviation).
\<close>

definition boolean_index :: "'a list \<Rightarrow> bool list \<Rightarrow> error + 'a list" where
  "boolean_index xs idx =
     (if length idx \<noteq> length xs then Inl IndexError
      else Inr (map fst (filter snd (zip xs idx))))"

definition np_max :: "npfloat list \<Rightarrow> error + npfloat" where
  "np_max xs = (case xs of [] \<Rightarrow> Inl ValueError | x # rest \<Rightarrow> Inr (foldl np_maximum x rest))"

definition np_min :: "npfloat list \<Rightarrow> error + npfloat" where
  "np_min xs = (case xs of [] \<Rightarrow> Inl ValueError | x # rest \<Rightarrow> Inr (foldl np_minimum x rest))"

definition np_sum :: "npfloat list \<Rightarrow> npfloat" where
  "np_sum xs = foldl np_add (Finite 0) xs"

definition np_mean :: "npfloat list \<Rightarrow> npfloat" where
  "np_mean xs = np_div_count (np_sum xs) (length xs)"

definition np_std :: "npfloat list \<Rightarrow> npfloat" where
  "np_std xs = np_sqrt (np_mean (map (\<lambda>x. np_square (np_sub x (np_mean xs))) xs))"

record RippleReport =
  ripple_db :: npfloat
  mag_max_db :: npfloat
  mag_min_db :: npfloat
  mag_mean_db :: npfloat
  mag_std_db :: npfloat
  passband_freqs :: "real list"
  passband_mag_db :: "npfloat list"

definition compute_passband_ripple ::
  "npfloat list \<Rightarrow> real list \<Rightarrow> real \<times> real \<Rightarrow> error + RippleReport" where
  "compute_passband_ripple mag frequencies passband_limits =
     (let (f_min, f_max) = passband_limits;
          idx = map (\<lambda>f. f \<ge> f_min \<and> f \<le> f_max) frequencies
      in case boolean_index mag idx of
           Inl e \<Rightarrow> Inl e
         | Inr pmag \<Rightarrow>
             (case boolean_index frequencies idx of
                Inl e \<Rightarrow> Inl e
              | Inr pfreqs \<Rightarrow>
                  (case np_max pmag of
                     Inl e \<Rightarrow> Inl e
                   | Inr mx \<Rightarrow>
                       (case np_min pmag of
                          Inl e \<Rightarrow> Inl e
                        | Inr mn \<Rightarrow>
                            Inr \<lparr>ripple_db = np_sub mx mn, mag_max_db = mx, mag_min_db = mn,
                                 mag_mean_db = np_mean pmag, mag_std_db = np_std pmag,
                                 passband_freqs = pfreqs, passband_mag_db = pmag\<rparr>))))"

text \<open>
  The report carries no frequency of the extremes. \<^verbatim>\<open>main\<close> prints them as
  \<^verbatim>\<open>freq_sweep[np.argmax(mag_sweep)]\<close> and \<^verbatim>\<open>freq_sweep[np.argmin(mag_sweep)]\<close>, over
  the whole sweep; \<^verbatim>\<open>np.argmax\<close> and \<^verbatim>\<open>np.argmin\<close> return the first index of the
  extreme, the first \<^verbatim>\<open>nan\<close> if there is one, and raise ValueError on an empty array.
\<close>

fun argmax_from :: "nat \<Rightarrow> npfloat \<Rightarrow> nat \<Rightarrow> npfloat list \<Rightarrow> nat" where
  "argmax_from bi bv i [] = bi"
| "argmax_from bi bv i (v # vs) =
     (if bv \<noteq> NaN \<and> (v = NaN \<or> np_less bv v) then argmax_from i v (Suc i) vs
      else argmax_from bi bv (Suc i) vs)"

fun argmin_from :: "nat \<Rightarrow> npfloat \<Rightarrow> nat \<Rightarrow> npfloat list \<Rightarrow> nat" where
  "argmin_from bi bv i [] = bi"
| "argmin_from bi bv i (v # vs) =
     (if bv \<noteq> NaN \<and> (v = NaN \<or> np_less v bv) then argmin_from i v (Suc i) vs
      else argmin_from bi bv (Suc i) vs)"

definition np_argmax :: "npfloat list \<Rightarrow> error + nat" where
  "np_argmax xs = (case xs of [] \<Rightarrow> Inl ValueError | x # rest \<Rightarrow> Inr (argmax_from 0 x 1 rest))"

definition np_argmin :: "npfloat list \<Rightarrow> error + nat" where
  "np_argmin xs = (case xs of [] \<Rightarrow> Inl ValueError | x # rest \<Rightarrow> Inr (argmin_from 0 x 1 rest))"

definition index_at :: "real list \<Rightarrow> nat \<Rightarrow> error + real" where
  "index_at xs i = (if i < length xs then Inr (xs ! i) else Inl IndexError)"

definition max_gain_freq :: "npfloat list \<Rightarrow> real list \<Rightarrow> error + real" where
  "max_gain_freq mag_sweep freq_sweep =
     (case np_argmax mag_sweep of Inl e \<Rightarrow> Inl e | Inr i \<Rightarrow> index_at freq_sweep i)"

definition min_gain_freq :: "npfloat list \<Rightarrow> real list \<Rightarrow> error + real" where
  "min_gain_freq mag_sweep freq_sweep =
     (case np_argmin mag_sweep of Inl e \<Rightarrow> Inl e | Inr i \<Rightarrow> index_at freq_sweep i)"

subsection \<open>Limiting stage (the tuple sort of \<^verbatim>\<open>main\<close>)\<close>

text \<open>
  \<^verbatim>\<open>main\<close> builds a list of (ripple, name) tuples and calls
  \<^verbatim>\<open>ripples.sort(reverse=True)\<close>: no key is given, so whole tuples are compared, first
  by the ripple, then by the name (strings compare by code point, a proper prefix being
  smaller). With \<^verbatim>\<open>reverse=True\<close> the list is reversed, sorted stably in ascending
  order, and reversed again.
\<close>

definition sort_reverse :: "(real \<times> string) list \<Rightarrow> (real \<times> string) list" where
  "sort_reverse xs = rev (sort (rev xs))"

definition main_ripples :: "real \<Rightarrow> real \<Rightarrow> real \<Rightarrow> (real \<times> string) list" where
  "main_ripples ripple1 ripple2 ripple3 =
     [(ripple1, ''Pre-emphasis filter''), (ripple2, ''Notch filter''),
      (ripple3, ''Upsampler FIR'')]"

definition primary_limiter :: "real \<Rightarrow> real \<Rightarrow> real \<Rightarrow> real \<times> string" where
  "primary_limiter ripple1 ripple2 ripple3 =
     hd (sort_reverse (main_ripples ripple1 ripple2 ripple3))"

text \<open>
  For comparison, the ranking in the words of the specification: a stable sort in
  descending order of the ripple alone, ties keeping the original stage order.
\<close>

definition spec_stable_ranking :: "(real \<times> string) list \<Rightarrow> (real \<times> string) list" where
  "spec_stable_ranking xs = sort_key (\<lambda>p. - fst p) xs"

section \<open>Properties\<close>

subsection \<open>Quality rating\<close>

text \<open>
  C2: the rating maps the ripple to a grade by half-open, lower-inclusive bands:
  [0, 0.1) is EXCELLENT, [0.1, 0.5) is VERY GOOD, [0.5, 1.0) is GOOD, [1.0, 2.0) is FAIR
  and [2.0, infinity) is POOR; the boundary values 0.1, 0.5 and 2.0 fall into the upper
  band.
\<close>

theorem quality_bands:
  "(0 \<le> r \<and> r < 0.1 \<longrightarrow> quality r = EXCELLENT) \<and>
   (0.1 \<le> r \<and> r < 0.5 \<longrightarrow> quality r = VERY_GOOD) \<and>
   (0.5 \<le> r \<and> r < 1.0 \<longrightarrow> quality r = GOOD) \<and>
   (1.0 \<le> r \<and> r < 2.0 \<longrightarrow> quality r = FAIR) \<and>
   (2.0 \<le> r \<longrightarrow> quality r = POOR) \<and>
   quality 0.1 = VERY_GOOD \<and> quality 0.5 = GOOD \<and> quality 2.0 = POOR"
  by (simp add: quality_def)

theorem quality_bands_witness:
  "quality 0.0999 = EXCELLENT \<and> quality 0.4999 = VERY_GOOD \<and> quality 0.75 = GOOD \<and>
   quality 1.9999 = FAIR \<and> quality 3 = POOR"
  using quality_bands [of "0.0999"] quality_bands [of "0.4999"] quality_bands [of "0.75"]
    quality_bands [of "1.9999"] quality_bands [of 3]
  by simp

text \<open>
  C10: the rating is total: every real ripple value, negative ones included, gets exactly
  one grade, and every value strictly below 0.1 is rated EXCELLENT.
\<close>

theorem quality_total_below_tenth:
  "(\<exists>!g. quality r = g) \<and> (r < 0.1 \<longrightarrow> quality r = EXCELLENT)"
  by (simp add: quality_def)

theorem quality_total_below_tenth_witness:
  "(\<exists>!g. quality (- 5) = g) \<and> quality (- 5) = EXCELLENT"
  using quality_total_below_tenth [of "- 5"] by simp

subsection \<open>Pre-emphasis response\<close>

lemma preemph_cmod_sq:
  "(cmod (of_real g * (1 - of_real a * exp (- \<i> * of_real w))))\<^sup>2 = g\<^sup>2 * (1 - 2 * a * cos w + a\<^sup>2)"
proof -
  have e: "exp (- \<i> * of_real w) = cis (- w)"
    by (simp add: cis_conv_exp)
  have "(cmod (1 - of_real a * cis (- w)))\<^sup>2 = 1 - 2 * a * cos w + a\<^sup>2"
  proof -
    have "(cmod (1 - of_real a * cis (- w)))\<^sup>2 = (1 - a * cos w)\<^sup>2 + (a * sin w)\<^sup>2"
      by (simp add: cmod_power2)
    also have "\<dots> = 1 - 2 * a * cos w + a\<^sup>2 * (cos w)\<^sup>2 + a\<^sup>2 * (1 - (cos w)\<^sup>2)"
      by (simp add: power2_diff power_mult_distrib sin_squared_eq)
    also have "\<dots> = 1 - 2 * a * cos w + a\<^sup>2"
      by (simp add: algebra_simps)
    finally show ?thesis .
  qed
  then show ?thesis
    unfolding e by (simp add: norm_mult power_mult_distrib)
qed

subsection \<open>Cascade\<close>

lemma Arg_mult_mod_2pi:
  assumes "z \<noteq> 0" "w \<noteq> 0"
  shows "\<exists>k::int. Arg (z * w) = Arg z + Arg w + 2 * pi * of_int k"
proof -
  have "cis (Arg (z * w)) = cis (Arg z + Arg w)"
    using assms by (simp add: cis_Arg sgn_mult flip: cis_mult)
  then have "sin (Arg (z * w)) = sin (Arg z + Arg w) \<and> cos (Arg (z * w)) = cos (Arg z + Arg w)"
    by (simp add: complex_eq_iff)
  then show ?thesis
    by (simp add: sin_cos_eq_iff)
qed

lemma Arg_mult3_mod_2pi:
  assumes "x \<noteq> 0" "y \<noteq> 0" "z \<noteq> 0"
  shows "\<exists>k::int. Arg (x * y * z) = Arg x + Arg y + Arg z + 2 * pi * of_int k"
proof -
  obtain k1 :: int where k1: "Arg (x * y) = Arg x + Arg y + 2 * pi * of_int k1"
    using Arg_mult_mod_2pi [OF assms(1,2)] by blast
  have "x * y \<noteq> 0" using assms by simp
  then obtain k2 :: int where k2: "Arg (x * y * z) = Arg (x * y) + Arg z + 2 * pi * of_int k2"
    using Arg_mult_mod_2pi [of "x * y" z] assms(3) by blast
  have "Arg (x * y * z) = Arg x + Arg y + Arg z + 2 * pi * of_int (k1 + k2)"
    unfolding k2 k1 by (simp add: algebra_simps)
  then show ?thesis by blast
qed

lemma cascade_result_fields:
  assumes "length h1 = n" "length h2 = n" "length h3 = n" "i < n"
  shows "H_total (cascade_result h1 h2 h3) ! i = h1 ! i * h2 ! i * h3 ! i"
    and "mag_linear (cascade_result h1 h2 h3) ! i = cmod (h1 ! i * h2 ! i * h3 ! i)"
    and "phase_rad (cascade_result h1 h2 h3) ! i = Arg (h1 ! i * h2 ! i * h3 ! i)"
    and "length (H_total (cascade_result h1 h2 h3)) = n"
  using assms by (simp_all add: cascade_result_def Let_def)

lemma Arg_upper_half:
  assumes "0 < Im z"
  shows "0 < Arg z \<and> Arg z < pi"
proof -
  have nz: "z \<noteq> 0" using assms by auto
  then have "cis (Arg z) = sgn z" by (rule cis_Arg)
  then have "Im (cis (Arg z)) = Im (sgn z)" by simp
  then have "sin (Arg z) = Im (sgn z)" by simp
  also have "\<dots> = Im z / cmod z" by (simp add: sgn_eq)
  finally have s: "0 < sin (Arg z)" using assms nz by simp
  have b: "- pi < Arg z" "Arg z \<le> pi" using Arg_bounded [of z] by simp_all
  have "0 < Arg z"
  proof (rule ccontr)
    assume "\<not> 0 < Arg z"
    then have "0 \<le> - Arg z" "- Arg z \<le> pi" using b by simp_all
    then have "0 \<le> sin (- Arg z)" by (rule sin_ge_zero)
    with s show False by simp
  qed
  moreover have "Arg z \<noteq> pi" using s by auto
  ultimately show ?thesis using b by simp
qed

lemma exp_minus_quarter_turn: "exp (- (\<i> * complex_of_real pi / 2)) = - \<i>"
proof -
  have "exp (- (\<i> * complex_of_real pi / 2)) = cis (- (pi / 2))"
    by (simp add: cis_conv_exp)
  then show ?thesis by simp
qed

lemma poly_zinv_at_one: "poly_zinv cs 1 = of_real (sum_list cs)"
  by (induction cs) simp_all

text \<open>The function returns whenever the sample rate is non-zero and both design routines do.\<close>

lemma analyze_cascade_returns:
  assumes "fs \<noteq> 0" and "iirnotch 19000 25 fs = Inr ba"
    and "firwin 96 (15000 / (fs * 4 / 2)) 8.5 = Inr taps"
  shows "\<exists>res. analyze_cascade iirnotch firwin frequencies fs = Inr res"
proof -
  obtain b a where "ba = (b, a)" by (cases ba)
  with assms show ?thesis
    by (simp add: analyze_cascade_def NotchFilter_init_def PolyphaseFIRUpsampler_init_def Let_def)
qed

text \<open>
  C1 (as amended): whenever \<^verbatim>\<open>analyze_cascade\<close> returns, at each grid point the
  cascade response is the product of the three stage responses in the order
  pre-emphasis, notch, upsampler, and the cascade magnitude is the product of the stage
  magnitudes. The cascade response is the complex number with that magnitude and the
  sum of the stage phases as its argument; the phase the function reports is the sum of
  the stage phases up to a multiple of 2 pi where all three stage responses are non-zero.
\<close>

theorem analyze_cascade_product:
  assumes "analyze_cascade iirnotch firwin frequencies fs = Inr res" and "i < length frequencies"
  shows "H1 res = PreEmphasisFilter_frequency_response (preemph res) frequencies fs \<and>
         H2 res = NotchFilter_frequency_response (notch res) frequencies fs \<and>
         H3 res = PolyphaseFIRUpsampler_frequency_response (upsampler res) frequencies fs \<and>
         H_total res ! i = H1 res ! i * H2 res ! i * H3 res ! i \<and>
         mag_linear res ! i = cmod (H1 res ! i) * cmod (H2 res ! i) * cmod (H3 res ! i) \<and>
         H_total res ! i = rcis (cmod (H1 res ! i) * cmod (H2 res ! i) * cmod (H3 res ! i))
                                (Arg (H1 res ! i) + Arg (H2 res ! i) + Arg (H3 res ! i)) \<and>
         (H1 res ! i \<noteq> 0 \<and> H2 res ! i \<noteq> 0 \<and> H3 res ! i \<noteq> 0 \<longrightarrow>
            (\<exists>k::int. phase_rad res ! i =
               Arg (H1 res ! i) + Arg (H2 res ! i) + Arg (H3 res ! i) + 2 * pi * of_int k))"
proof -
  obtain n u where nu: "NotchFilter_init iirnotch 19000 25 fs = Inr n"
      "PolyphaseFIRUpsampler_init firwin 4 96 15000 fs = Inr u"
    using assms(1) by (auto simp: analyze_cascade_def Let_def split: sum.splits)
  let ?h1 = "PreEmphasisFilter_frequency_response PreEmphasisFilter_init frequencies fs"
  let ?h2 = "NotchFilter_frequency_response n frequencies fs"
  let ?h3 = "PolyphaseFIRUpsampler_frequency_response u frequencies fs"
  have len: "length ?h1 = length frequencies" "length ?h2 = length frequencies"
      "length ?h3 = length frequencies"
    by (simp_all add: PreEmphasisFilter_frequency_response_def NotchFilter_frequency_response_def
        PolyphaseFIRUpsampler_frequency_response_def freqz_def)
  have res: "H1 res = ?h1" "H2 res = ?h2" "H3 res = ?h3"
      "H_total res = H_total (cascade_result ?h1 ?h2 ?h3)"
      "mag_linear res = mag_linear (cascade_result ?h1 ?h2 ?h3)"
      "phase_rad res = phase_rad (cascade_result ?h1 ?h2 ?h3)"
      "preemph res = PreEmphasisFilter_init" "notch res = n" "upsampler res = u"
    using assms(1) nu by (auto simp: analyze_cascade_def Let_def cascade_result_def)
  note f = cascade_result_fields [OF len assms(2)]
  have polar: "?h1 ! i * ?h2 ! i * ?h3 ! i
      = rcis (cmod (?h1 ! i) * cmod (?h2 ! i) * cmod (?h3 ! i))
             (Arg (?h1 ! i) + Arg (?h2 ! i) + Arg (?h3 ! i))"
    by (simp only: rcis_mult [symmetric] rcis_cmod_Arg)
  show ?thesis
    using Arg_mult3_mod_2pi [of "?h1 ! i" "?h2 ! i" "?h3 ! i"] polar
    by (simp add: res f norm_mult)
qed

lemma sample_cascade_dc:
  "\<exists>res. analyze_cascade sample_iirnotch sample_firwin [0] 48000 = Inr res \<and>
     H1 res = [of_real (3 * (1 - 0.6592))] \<and> H2 res = [1] \<and> H3 res = [4]"
  by (simp add: analyze_cascade_def NotchFilter_init_def PolyphaseFIRUpsampler_init_def
      sample_iirnotch_def sample_firwin_def Let_def cascade_result_def
      PreEmphasisFilter_frequency_response_def PreEmphasisFilter_init_def
      NotchFilter_frequency_response_def PolyphaseFIRUpsampler_frequency_response_def
      freqz_def poly_zinv_at_one sum_list_replicate o_def)

theorem analyze_cascade_product_witness:
  "\<exists>res. analyze_cascade sample_iirnotch sample_firwin [0] 48000 = Inr res \<and>
     H_total res ! 0 = H1 res ! 0 * H2 res ! 0 * H3 res ! 0 \<and>
     mag_linear res ! 0 = cmod (H1 res ! 0) * cmod (H2 res ! 0) * cmod (H3 res ! 0) \<and>
     H1 res ! 0 \<noteq> 0 \<and> H2 res ! 0 \<noteq> 0 \<and> H3 res ! 0 \<noteq> 0 \<and>
     (\<exists>k::int. phase_rad res ! 0 =
        Arg (H1 res ! 0) + Arg (H2 res ! 0) + Arg (H3 res ! 0) + 2 * pi * of_int k)"
proof -
  obtain res where r: "analyze_cascade sample_iirnotch sample_firwin [0] 48000 = Inr res"
    and hs: "H1 res = [of_real (3 * (1 - 0.6592))]" "H2 res = [1]" "H3 res = [4]"
    using sample_cascade_dc by blast
  have nz: "H1 res ! 0 \<noteq> 0" "H2 res ! 0 \<noteq> 0" "H3 res ! 0 \<noteq> 0"
    by (simp_all add: hs)
  show ?thesis
    using analyze_cascade_product [OF r, of 0] nz r by (intro exI [of _ res]) force
qed

text \<open>
  C1 as stated fails where a stage response is exactly zero: the cascade phase is the
  argument of zero, which is zero, whatever the phases of the other stages. Here the
  stage responses are the pre-emphasis response at a quarter of the sample rate, a zero
  of the second stage, and a unit third stage: the reported phase is 0, the stage phases
  sum to an angle strictly between 0 and pi, and the two are not equal modulo 2 pi (their
  points on the unit circle differ).
\<close>

theorem cascade_phase_counterexample:
  "phase_rad (cascade_result [3 + 1.9776 * \<i>] [0] [1]) ! 0 = 0 \<and>
   0 < Arg (3 + 1.9776 * \<i>) + Arg 0 + Arg 1 \<and>
   Arg (3 + 1.9776 * \<i>) + Arg 0 + Arg 1 < pi \<and>
   cis (phase_rad (cascade_result [3 + 1.9776 * \<i>] [0] [1]) ! 0)
     \<noteq> cis (Arg (3 + 1.9776 * \<i>) + Arg 0 + Arg 1)"
proof -
  have p: "phase_rad (cascade_result [3 + 1.9776 * \<i>] [0] [1]) ! 0 = 0"
    by (simp add: cascade_result_def Let_def Arg_zero)
  have one: "Arg 1 = 0"
    by (rule cis_Arg_unique) simp_all
  have "0 < Im (3 + 1.9776 * \<i>)" by simp
  then have a: "0 < Arg (3 + 1.9776 * \<i>)" "Arg (3 + 1.9776 * \<i>) < pi"
    using Arg_upper_half by blast+
  have "sin (Arg (3 + 1.9776 * \<i>)) \<noteq> 0"
    using a sin_gt_zero [of "Arg (3 + 1.9776 * \<i>)"] by simp
  then have "cis 0 \<noteq> cis (Arg (3 + 1.9776 * \<i>))"
    by (auto simp: complex_eq_iff)
  then show ?thesis
    unfolding p one Arg_zero using a by simp
qed

subsection \<open>Passband ripple\<close>

lemma np_maximum_Finite: "np_maximum (Finite a) (Finite b) = Finite (max a b)"
  by (simp add: np_maximum_def max_def)

lemma np_minimum_Finite: "np_minimum (Finite a) (Finite b) = Finite (min a b)"
  by (auto simp: np_minimum_def min_def)

lemma foldl_np_maximum_Finite:
  "foldl np_maximum (Finite x) (map Finite ys) = Finite (Max (set (x # ys)))"
proof -
  have "foldl np_maximum (Finite x) (map Finite ys) = Finite (fold max ys x)"
    by (induction ys arbitrary: x) (simp_all add: np_maximum_Finite max.commute)
  also have "fold max ys x = Max (set (x # ys))"
    by (rule Max.set_eq_fold [symmetric])
  finally show ?thesis .
qed

lemma foldl_np_minimum_Finite:
  "foldl np_minimum (Finite x) (map Finite ys) = Finite (Min (set (x # ys)))"
proof -
  have "foldl np_minimum (Finite x) (map Finite ys) = Finite (fold min ys x)"
    by (induction ys arbitrary: x) (simp_all add: np_minimum_Finite min.commute)
  also have "fold min ys x = Min (set (x # ys))"
    by (rule Min.set_eq_fold [symmetric])
  finally show ?thesis .
qed

lemma np_max_Finite: "ys \<noteq> [] \<Longrightarrow> np_max (map Finite ys) = Inr (Finite (Max (set ys)))"
  by (cases ys) (simp_all add: np_max_def foldl_np_maximum_Finite)

lemma np_min_Finite: "ys \<noteq> [] \<Longrightarrow> np_min (map Finite ys) = Inr (Finite (Min (set ys)))"
  by (cases ys) (simp_all add: np_min_def foldl_np_minimum_Finite)

lemma foldl_np_add_Finite:
  "foldl np_add (Finite a) (map Finite ys) = Finite (a + sum_list ys)"
  by (induction ys arbitrary: a) (simp_all add: algebra_simps)

lemma np_mean_Finite:
  "ys \<noteq> [] \<Longrightarrow> np_mean (map Finite ys) = Finite (sum_list ys / real (length ys))"
  by (simp add: np_mean_def np_sum_def foldl_np_add_Finite)

lemma np_std_Finite:
  assumes "ys \<noteq> []"
  shows "np_std (map Finite ys) =
     Finite (sqrt (sum_list (map (\<lambda>x. (x - sum_list ys / real (length ys))\<^sup>2) ys)
                    / real (length ys)))"
proof -
  let ?m = "sum_list ys / real (length ys)"
  let ?sq = "map (\<lambda>x. (x - ?m)\<^sup>2) ys"
  have dev: "map (\<lambda>x. np_square (np_sub x (np_mean (map Finite ys)))) (map Finite ys)
      = map Finite ?sq"
    by (simp add: np_mean_Finite [OF assms] np_sub_def power2_eq_square)
  have "?sq \<noteq> []" using assms by simp
  then have mean: "np_mean (map Finite ?sq) = Finite (sum_list ?sq / real (length ?sq))"
    by (rule np_mean_Finite)
  have "0 \<le> sum_list ?sq"
    by (rule sum_list_nonneg) auto
  then have nonneg: "\<not> sum_list ?sq / real (length ?sq) < 0"
    by (simp add: not_less)
  have "np_std (map Finite ys) = np_sqrt (Finite (sum_list ?sq / real (length ?sq)))"
    unfolding np_std_def dev mean ..
  also have "\<dots> = Finite (sqrt (sum_list ?sq / real (length ?sq)))"
    using nonneg by (simp only: np_sqrt.simps if_False)
  finally show ?thesis by simp
qed

lemma mask_select_fst:
  "length xs = length fs \<Longrightarrow>
   map fst (filter snd (zip xs (map P fs))) = map fst (filter (\<lambda>(x, f). P f) (zip xs fs))"
  by (induction xs fs rule: list_induct2) simp_all

lemma mask_select_self:
  "map fst (filter snd (zip fs (map P fs))) = filter P fs"
  by (induction fs) simp_all

lemma selected_pairs:
  "length xs = length fs \<Longrightarrow>
   zip (map fst (filter (\<lambda>(x, f). P f) (zip xs fs))) (filter P fs)
     = filter (\<lambda>(x, f). P f) (zip xs fs)"
  by (induction xs fs rule: list_induct2) simp_all

lemma all_finite_map: "\<forall>x\<in>set ys. is_finite x \<Longrightarrow> \<exists>pm. ys = map Finite pm"
proof (induction ys)
  case Nil
  then show ?case by simp
next
  case (Cons y ys)
  then obtain pm where "ys = map Finite pm" by auto
  moreover obtain a where "y = Finite a"
    using Cons.prems by (cases y) auto
  ultimately have "y # ys = map Finite (a # pm)" by simp
  then show ?case by (rule exI)
qed

text \<open>
  C3 (as amended): for a magnitude series aligned with the grid, a passband [f_min, f_max]
  holding at least one grid point, and finite magnitudes at the grid points of the
  passband, the ripple computation returns a report; it selects exactly the grid points
  with f_min <= f <= f_max (both ends inclusive), with their magnitudes, and reports the
  maximum, the minimum, the mean, the population standard deviation and
  ripple_db = max - min >= 0 of the selected magnitudes, together with the selected
  frequencies and magnitudes.
\<close>

theorem passband_ripple_report:
  assumes "length mag = length frequencies"
    and "\<exists>f\<in>set frequencies. f_min \<le> f \<and> f \<le> f_max"
    and "\<forall>i<length mag. f_min \<le> frequencies ! i \<and> frequencies ! i \<le> f_max
           \<longrightarrow> is_finite (mag ! i)"
  shows "\<exists>r pm. compute_passband_ripple mag frequencies (f_min, f_max) = Inr r \<and>
     passband_freqs r = filter (\<lambda>f. f_min \<le> f \<and> f \<le> f_max) frequencies \<and>
     zip (passband_mag_db r) (passband_freqs r)
       = filter (\<lambda>(m, f). f_min \<le> f \<and> f \<le> f_max) (zip mag frequencies) \<and>
     passband_mag_db r = map Finite pm \<and>
     mag_max_db r = Finite (Max (set pm)) \<and>
     mag_min_db r = Finite (Min (set pm)) \<and>
     mag_mean_db r = Finite (sum_list pm / real (length pm)) \<and>
     mag_std_db r = Finite (sqrt (sum_list (map (\<lambda>x. (x - sum_list pm / real (length pm))\<^sup>2) pm)
                                   / real (length pm))) \<and>
     ripple_db r = Finite (Max (set pm) - Min (set pm)) \<and>
     0 \<le> Max (set pm) - Min (set pm)"
proof -
  let ?P = "\<lambda>f. f_min \<le> f \<and> f \<le> f_max"
  let ?sel = "map fst (filter (\<lambda>(m, f). ?P f) (zip mag frequencies))"
  let ?pf = "filter ?P frequencies"
  have "\<forall>x\<in>set ?sel. is_finite x"
  proof
    fix x assume "x \<in> set ?sel"
    then obtain f where "(x, f) \<in> set (zip mag frequencies)" "?P f" by auto
    then obtain i where "i < length mag" "mag ! i = x" "frequencies ! i = f"
      by (auto simp: in_set_zip)
    with assms(3) \<open>?P f\<close> show "is_finite x" by auto
  qed
  then obtain pm where pm: "?sel = map Finite pm"
    using all_finite_map by blast
  have len: "length ?sel = length ?pf"
    using assms(1) by (induction mag frequencies rule: list_induct2) simp_all
  have "?pf \<noteq> []"
    using assms(2) by (auto simp: filter_empty_conv)
  with len have "?sel \<noteq> []" by auto
  then have ne: "pm \<noteq> []" by (simp add: pm)
  have sel: "boolean_index mag (map ?P frequencies) = Inr (map Finite pm)"
    "boolean_index frequencies (map ?P frequencies) = Inr ?pf"
    using assms(1) by (simp_all add: boolean_index_def mask_select_fst mask_select_self pm)
  let ?r = "\<lparr>ripple_db = Finite (Max (set pm) - Min (set pm)), mag_max_db = Finite (Max (set pm)),
      mag_min_db = Finite (Min (set pm)),
      mag_mean_db = Finite (sum_list pm / real (length pm)),
      mag_std_db = Finite (sqrt (sum_list (map (\<lambda>x. (x - sum_list pm / real (length pm))\<^sup>2) pm)
                                   / real (length pm))),
      passband_freqs = ?pf, passband_mag_db = map Finite pm\<rparr>"
  have run: "compute_passband_ripple mag frequencies (f_min, f_max) = Inr ?r"
    by (simp add: compute_passband_ripple_def sel np_max_Finite [OF ne] np_min_Finite [OF ne]
        np_mean_Finite [OF ne] np_std_Finite [OF ne] np_sub_def)
  obtain m0 where m0: "m0 \<in> set pm"
    using ne by (cases pm) auto
  have "Min (set pm) \<le> m0" "m0 \<le> Max (set pm)"
    using m0 by (simp_all only: Min_le Max_ge List.finite_set)
  then have nonneg: "0 \<le> Max (set pm) - Min (set pm)" by simp
  have pairs: "zip (map Finite pm) ?pf = filter (\<lambda>(m, f). ?P f) (zip mag frequencies)"
    unfolding pm [symmetric] using assms(1) by (rule selected_pairs)
  show ?thesis
    using run pairs nonneg by (intro exI [of _ ?r] exI [of _ pm]) simp
qed

theorem passband_ripple_report_witness:
  "\<exists>r. compute_passband_ripple [NegInf, Finite 1, Finite 3] [10, 100, 15000] (20, 15000) = Inr r \<and>
     passband_freqs r = [100, 15000] \<and>
     (\<exists>pm. passband_mag_db r = map Finite pm \<and>
        ripple_db r = Finite (Max (set pm) - Min (set pm)) \<and>
        0 \<le> Max (set pm) - Min (set pm))"
proof -
  have hyp: "length [NegInf, Finite 1, Finite 3] = length [10, 100, 15000 :: real]"
    "\<exists>f\<in>set [10, 100, 15000 :: real]. 20 \<le> f \<and> f \<le> 15000"
    "\<forall>i<length [NegInf, Finite 1, Finite 3].
        20 \<le> [10, 100, 15000 :: real] ! i \<and> [10, 100, 15000 :: real] ! i \<le> 15000
        \<longrightarrow> is_finite ([NegInf, Finite 1, Finite 3] ! i)"
    by (simp_all add: less_Suc_eq nth_Cons')
  from passband_ripple_report [OF hyp] obtain r pm where
    "compute_passband_ripple [NegInf, Finite 1, Finite 3] [10, 100, 15000] (20, 15000) = Inr r"
    "passband_freqs r = filter (\<lambda>f. 20 \<le> f \<and> f \<le> 15000) [10, 100, 15000]"
    "passband_mag_db r = map Finite pm"
    "ripple_db r = Finite (Max (set pm) - Min (set pm))"
    "0 \<le> Max (set pm) - Min (set pm)"
    by blast
  then show ?thesis
    by (intro exI [of _ r]) auto
qed

text \<open>
  C3 as stated fails in two places. A series may hold minus infinity: the decibel series
  of the notch with quality factor 1 at a quarter of the sample rate, on the grid of its
  centre frequency alone, is minus infinity, and the ripple of the report is then
  \<^verbatim>\<open>nan\<close>, which is not a number above zero. And the report holds no frequency of an
  extreme: on a grid with a point below the passband that carries the largest magnitude,
  the passband maximum 2 belongs to 1000 Hz, while the frequency \<^verbatim>\<open>main\<close> computes
  for the maximum is 10 Hz, outside the passband.
\<close>

theorem ripple_report_counterexample:
  "\<not> isl (compute_passband_ripple
            (NotchFilter_magnitude_db
               \<lparr>f_notch = 12000, Q = 1, notch_fs = 48000, notch_b = [1/2, 0, 1/2],
                notch_a = [1, 0, 0]\<rparr> [12000] 48000)
            [12000] (20, 15000)) \<and>
   ripple_db (projr (compute_passband_ripple
            (NotchFilter_magnitude_db
               \<lparr>f_notch = 12000, Q = 1, notch_fs = 48000, notch_b = [1/2, 0, 1/2],
                notch_a = [1, 0, 0]\<rparr> [12000] 48000)
            [12000] (20, 15000))) = NaN \<and>
   \<not> isl (compute_passband_ripple [Finite 5, Finite 1, Finite 2] [10, 100, 1000] (20, 15000)) \<and>
   passband_freqs (projr (compute_passband_ripple [Finite 5, Finite 1, Finite 2]
                            [10, 100, 1000] (20, 15000))) = [100, 1000] \<and>
   mag_max_db (projr (compute_passband_ripple [Finite 5, Finite 1, Finite 2]
                        [10, 100, 1000] (20, 15000))) = Finite 2 \<and>
   max_gain_freq [Finite 5, Finite 1, Finite 2] [10, 100, 1000] = Inr 10"
proof -
  have db: "NotchFilter_magnitude_db
               \<lparr>f_notch = 12000, Q = 1, notch_fs = 48000, notch_b = [1/2, 0, 1/2],
                notch_a = [1, 0, 0]\<rparr> [12000] 48000 = [NegInf]"
    by (simp add: NotchFilter_magnitude_db_def NotchFilter_frequency_response_def freqz_def
        db_of_response_def np_log10_def exp_minus_quarter_turn Let_def)
  show ?thesis
    unfolding db
    by (simp add: compute_passband_ripple_def boolean_index_def np_max_def np_min_def
        np_maximum_def np_minimum_def np_sub_def
        max_gain_freq_def np_argmax_def index_at_def)
qed

text \<open>
  C4 (as amended): when no grid point satisfies f_min <= f <= f_max, the ripple
  computation fails with an exception and returns no report: the ValueError that numpy
  raises for the maximum of the empty selection when the series is aligned with the
  grid, the IndexError of the mask indexing when it is not. There is no range check of
  the function's own.
\<close>

theorem passband_ripple_empty_band:
  assumes "\<not> (\<exists>f\<in>set frequencies. f_min \<le> f \<and> f \<le> f_max)"
  shows "compute_passband_ripple mag frequencies (f_min, f_max)
           = (if length mag = length frequencies then Inl ValueError else Inl IndexError)"
proof (cases "length mag = length frequencies")
  case True
  let ?P = "\<lambda>f. f_min \<le> f \<and> f \<le> f_max"
  have "filter (\<lambda>(m, f). ?P f) (zip mag frequencies) = []"
    using assms by (auto simp: filter_empty_conv dest: set_zip_rightD)
  then have "boolean_index mag (map ?P frequencies) = Inr []"
    using True by (simp add: boolean_index_def mask_select_fst)
  moreover have "boolean_index frequencies (map ?P frequencies) = Inr (filter ?P frequencies)"
    by (simp add: boolean_index_def mask_select_self)
  ultimately show ?thesis
    using True by (simp add: compute_passband_ripple_def np_max_def)
next
  case False
  then show ?thesis
    by (simp add: compute_passband_ripple_def boolean_index_def)
qed

theorem passband_ripple_empty_band_witness:
  "compute_passband_ripple [Finite 1, Finite 2] [10, 20000] (20, 15000) = Inl ValueError"
  using passband_ripple_empty_band [of "[10, 20000]" 20 15000 "[Finite 1, Finite 2]"] by simp

text \<open>
  C4 as stated fails on the kind of the failure: the code has no InvalidRange error. An
  empty band on an aligned series ends in numpy's ValueError, on a series of another
  length in numpy's IndexError.
\<close>

theorem empty_band_error_counterexample:
  "compute_passband_ripple [Finite (1/2)] [25000] (20, 15000) = Inl ValueError \<and>
   compute_passband_ripple [Finite 1, Finite 2, Finite 3] [10, 20000] (20, 15000)
     = Inl IndexError"
  by (simp add: compute_passband_ripple_def boolean_index_def np_max_def)

subsection \<open>Limiting stage\<close>

lemma sort_reverse_sorted: "sorted_wrt (\<lambda>p q. q \<le> p) (sort_reverse xs)"
  by (simp add: sort_reverse_def sorted_wrt_rev)

lemma hd_sort_reverse_greatest:
  assumes "p \<in> set xs"
  shows "p \<le> hd (sort_reverse xs)"
proof -
  have "p \<in> set (sort_reverse xs)"
    using assms by (simp add: sort_reverse_def)
  then obtain a rest where ar: "sort_reverse xs = a # rest"
    by (cases "sort_reverse xs") auto
  with sort_reverse_sorted [of xs] have "\<forall>q\<in>set rest. q \<le> a" by simp
  with \<open>p \<in> set (sort_reverse xs)\<close> show ?thesis
    by (auto simp: ar)
qed

lemma hd_sort_reverse_member:
  assumes "xs \<noteq> []"
  shows "hd (sort_reverse xs) \<in> set xs"
proof -
  have "set (sort_reverse xs) = set xs" by (simp add: sort_reverse_def)
  with assms have "sort_reverse xs \<noteq> []" by auto
  then have "hd (sort_reverse xs) \<in> set (sort_reverse xs)" by simp
  then show ?thesis by (simp add: sort_reverse_def)
qed

text \<open>
  C9 (as amended): the ranking sorts the (ripple, name) tuples in descending order of the
  whole tuple, that is by descending ripple with ties in the ripple broken by descending
  stage name, and reports the first entry: a stage of the list that no other stage
  exceeds in this order.
\<close>

theorem limiter_ranking_descending:
  "sorted_wrt (\<lambda>p q. fst q < fst p \<or> (fst q = fst p \<and> snd q \<le> snd p)) (sort_reverse xs) \<and>
   mset (sort_reverse xs) = mset xs \<and>
   primary_limiter r1 r2 r3 \<in> set (main_ripples r1 r2 r3) \<and>
   (\<forall>p\<in>set (main_ripples r1 r2 r3).
      fst p < fst (primary_limiter r1 r2 r3) \<or>
      (fst p = fst (primary_limiter r1 r2 r3) \<and> snd p \<le> snd (primary_limiter r1 r2 r3)))"
proof -
  have le: "(q \<le> p) = (fst q < fst p \<or> (fst q = fst p \<and> snd q \<le> snd p))"
    for p q :: "real \<times> string"
    by (auto simp: less_eq_prod_def)
  have "sorted_wrt (\<lambda>p q. fst q < fst p \<or> (fst q = fst p \<and> snd q \<le> snd p)) (sort_reverse xs)"
    using sort_reverse_sorted [of xs] by (simp only: le)
  moreover have "mset (sort_reverse xs) = mset xs"
    by (simp add: sort_reverse_def)
  moreover have "primary_limiter r1 r2 r3 \<in> set (main_ripples r1 r2 r3)"
    unfolding primary_limiter_def by (rule hd_sort_reverse_member) (simp add: main_ripples_def)
  moreover have "\<forall>p\<in>set (main_ripples r1 r2 r3).
      fst p < fst (primary_limiter r1 r2 r3) \<or>
      (fst p = fst (primary_limiter r1 r2 r3) \<and> snd p \<le> snd (primary_limiter r1 r2 r3))"
    using hd_sort_reverse_greatest [of _ "main_ripples r1 r2 r3"]
    by (simp only: le [symmetric] primary_limiter_def) blast
  ultimately show ?thesis by blast
qed

theorem limiter_ranking_descending_witness:
  "(1, ''Pre-emphasis filter'') \<in> set (main_ripples 1 0 1) \<and>
   (1 < fst (primary_limiter 1 0 1) \<or>
    (1 = fst (primary_limiter 1 0 1) \<and> ''Pre-emphasis filter'' \<le> snd (primary_limiter 1 0 1)))"
  using limiter_ranking_descending [of "[]" 1 0 1] by (simp add: main_ripples_def)

text \<open>
  C9 as stated fails on a tie: with equal ripple for the pre-emphasis filter and the
  upsampler, the code reports the upsampler (the greater name), where a stable sort by
  the ripple alone keeps the original order and reports the pre-emphasis filter.
\<close>

theorem limiter_tie_counterexample:
  "snd (primary_limiter 1 0 1) = ''Upsampler FIR'' \<and>
   snd (hd (spec_stable_ranking (main_ripples 1 0 1))) = ''Pre-emphasis filter''"
  by (simp add: primary_limiter_def sort_reverse_def main_ripples_def spec_stable_ranking_def
      less_eq_prod_def less_char_def less_eq_char_def)

subsection \<open>Construction\<close>

text \<open>
  C5 (as amended): the constructors validate nothing themselves. The pre-emphasis
  constructor takes no parameter and its constants are in the domain (gain > 0,
  0 <= alpha < 1). The notch constructor fails, at construction time, exactly when fs or
  Q is zero (a division by zero) or the library's design routine refuses the arguments;
  the upsampler constructor exactly when fs_in * L is zero or the library's design
  routine refuses the number of taps, the normalised cutoff or the window.
\<close>

theorem constructor_failures:
  "0 < gain PreEmphasisFilter_init \<and> 0 \<le> alpha PreEmphasisFilter_init \<and>
   alpha PreEmphasisFilter_init < 1 \<and>
   ((\<exists>e. NotchFilter_init iirnotch fn q fs = Inl e) \<longleftrightarrow>
      fs = 0 \<or> q = 0 \<or> (\<exists>e. iirnotch fn q fs = Inl e)) \<and>
   ((\<exists>e. PolyphaseFIRUpsampler_init firwin upf n cutoff fsi = Inl e) \<longleftrightarrow>
      fsi * of_int upf = 0 \<or>
      (\<exists>e. firwin n (cutoff / (fsi * of_int upf / 2)) 8.5 = Inl e))"
proof -
  have "0 < gain PreEmphasisFilter_init \<and> 0 \<le> alpha PreEmphasisFilter_init \<and>
      alpha PreEmphasisFilter_init < 1"
    by (simp add: PreEmphasisFilter_init_def)
  moreover have "(\<exists>e. NotchFilter_init iirnotch fn q fs = Inl e) \<longleftrightarrow>
      fs = 0 \<or> q = 0 \<or> (\<exists>e. iirnotch fn q fs = Inl e)"
    by (auto simp: NotchFilter_init_def split: sum.splits)
  moreover have "(\<exists>e. PolyphaseFIRUpsampler_init firwin upf n cutoff fsi = Inl e) \<longleftrightarrow>
      fsi * of_int upf = 0 \<or>
      (\<exists>e. firwin n (cutoff / (fsi * of_int upf / 2)) 8.5 = Inl e)"
    by (auto simp: PolyphaseFIRUpsampler_init_def Let_def split: sum.splits)
  ultimately show ?thesis by blast
qed

theorem constructor_failures_witness:
  "(\<exists>e. NotchFilter_init sample_iirnotch 19000 0 48000 = Inl e) \<and>
   \<not> (\<exists>e. NotchFilter_init sample_iirnotch 19000 (- 25) 48000 = Inl e) \<and>
   \<not> (\<exists>e. PolyphaseFIRUpsampler_init sample_firwin 1 96 15000 48000 = Inl e)"
  using constructor_failures [of sample_iirnotch 19000 0 48000 sample_firwin 1 96 15000 48000]
    constructor_failures [of sample_iirnotch 19000 "- 25" 48000 sample_firwin 1 96 15000 48000]
  by (simp add: sample_iirnotch_def sample_firwin_def)

text \<open>
  C5 as stated fails: an upsampler with L = 1 is constructed. L is not passed to the
  design routine, which is asked for 96 taps at the normalised cutoff 0.625.
\<close>

theorem upsampler_factor_one_counterexample:
  "PolyphaseFIRUpsampler_init sample_firwin 1 96 15000 48000 =
     Inr \<lparr>L = 1, num_taps = 96, cutoff_hz = 15000, fs_in = 48000, fs_out = 48000,
          h = replicate 96 (1 / 96), up_b = replicate 96 (1 / 96), up_a = [1]\<rparr>"
  by (simp add: PolyphaseFIRUpsampler_init_def sample_firwin_def Let_def)

subsection \<open>Decibel values\<close>

lemma db_of_response_nth:
  "i < length Hs \<Longrightarrow>
   db_of_response Hs ! i = (if Hs ! i = 0 then NegInf else Finite (20 * log 10 (cmod (Hs ! i))))"
  by (simp add: db_of_response_def np_log10_def)

lemma preemph_init_nonzero:
  "of_real (gain PreEmphasisFilter_init) *
     (1 - of_real (alpha PreEmphasisFilter_init) * exp (- \<i> * of_real w)) \<noteq> (0 :: complex)"
proof
  assume z: "of_real (gain PreEmphasisFilter_init) *
     (1 - of_real (alpha PreEmphasisFilter_init) * exp (- \<i> * of_real w)) = (0 :: complex)"
  have "(cmod (of_real (gain PreEmphasisFilter_init) *
     (1 - of_real (alpha PreEmphasisFilter_init) * exp (- \<i> * of_real w))))\<^sup>2
      = 3\<^sup>2 * (1 - 2 * 0.6592 * cos w + 0.6592\<^sup>2)"
    unfolding preemph_cmod_sq by (simp add: PreEmphasisFilter_init_def)
  then have "3\<^sup>2 * (1 - 2 * 0.6592 * cos w + 0.6592\<^sup>2) = (0::real)"
    unfolding z by simp
  moreover have "cos w \<le> 1" by simp
  ultimately show False by (simp add: power2_eq_square)
qed

text \<open>
  C6 (as amended): no clamp is applied before the logarithm. Every decibel value is
  20 log10 |H|, finite exactly where the response is non-zero, and minus infinity where
  the response is exactly zero; this holds for the stages' magnitude_db and for the
  cascade's mag_db. The response of the pre-emphasis filter is never zero, so its
  decibel series is finite on every grid, at any non-zero sample rate.
\<close>

theorem decibel_finite_iff_nonzero:
  "(\<forall>i<length Hs. db_of_response Hs ! i =
       (if Hs ! i = 0 then NegInf else Finite (20 * log 10 (cmod (Hs ! i))))) \<and>
   (\<forall>i<length Hs. is_finite (db_of_response Hs ! i) \<longleftrightarrow> Hs ! i \<noteq> 0) \<and>
   NotchFilter_magnitude_db nf fr fs = db_of_response (NotchFilter_frequency_response nf fr fs) \<and>
   PolyphaseFIRUpsampler_magnitude_db uf fr fs
     = db_of_response (PolyphaseFIRUpsampler_frequency_response uf fr fs) \<and>
   mag_db (cascade_result h1 h2 h3) = db_of_response (H_total (cascade_result h1 h2 h3)) \<and>
   (fs \<noteq> 0 \<longrightarrow>
      (\<forall>x\<in>set (PreEmphasisFilter_magnitude_db PreEmphasisFilter_init fr fs). is_finite x))"
proof -
  have a: "\<forall>i<length Hs. db_of_response Hs ! i =
       (if Hs ! i = 0 then NegInf else Finite (20 * log 10 (cmod (Hs ! i))))"
    by (simp add: db_of_response_nth)
  then have b: "\<forall>i<length Hs. is_finite (db_of_response Hs ! i) \<longleftrightarrow> Hs ! i \<noteq> 0"
    by simp
  have c: "mag_db (cascade_result h1 h2 h3) = db_of_response (H_total (cascade_result h1 h2 h3))"
    by (simp add: cascade_result_def Let_def db_of_response_def)
  have nz: "z \<noteq> 0"
    if "z \<in> set (PreEmphasisFilter_frequency_response PreEmphasisFilter_init fr fs)" for z
  proof -
    from that obtain f where "z = of_real (gain PreEmphasisFilter_init) *
        (1 - of_real (alpha PreEmphasisFilter_init) * exp (- \<i> * of_real (2 * pi * f / fs)))"
      unfolding PreEmphasisFilter_frequency_response_def Let_def
      by (auto simp only: set_map image_iff)
    then show ?thesis
      by (simp only: preemph_init_nonzero not_False_eq_True)
  qed
  have d: "\<forall>x\<in>set (PreEmphasisFilter_magnitude_db PreEmphasisFilter_init fr fs). is_finite x"
    using nz by (auto simp: PreEmphasisFilter_magnitude_db_def db_of_response_def np_log10_def)
  show ?thesis
    using a b c d
    unfolding NotchFilter_magnitude_db_def PolyphaseFIRUpsampler_magnitude_db_def
    by blast
qed

theorem decibel_finite_iff_nonzero_witness:
  "db_of_response [0, 2] ! 0 = NegInf \<and> is_finite (db_of_response [0, 2] ! 1) \<and>
   is_finite (hd (PreEmphasisFilter_magnitude_db PreEmphasisFilter_init [1000] 48000))"
proof -
  have "hd (PreEmphasisFilter_magnitude_db PreEmphasisFilter_init [1000] 48000)
      \<in> set (PreEmphasisFilter_magnitude_db PreEmphasisFilter_init [1000] 48000)"
    by (simp add: PreEmphasisFilter_magnitude_db_def PreEmphasisFilter_frequency_response_def
        db_of_response_def)
  moreover have "(0::nat) < length [0, 2 :: complex]" "(1::nat) < length [0, 2 :: complex]"
    by simp_all
  ultimately show ?thesis
    using decibel_finite_iff_nonzero [of "[0, 2]" _ "[1000]" 48000] by (simp del: hd_map)
qed

text \<open>
  C6 as stated fails at the centre of a notch: the notch with quality factor 1 at a
  quarter of the sample rate has a response of exactly zero at 12000 Hz (fs = 48000), and
  its magnitude_db there is minus infinity, not a floor value.
\<close>

theorem notch_center_decibel_counterexample:
  "NotchFilter_init sample_iirnotch 12000 1 48000 =
     Inr \<lparr>f_notch = 12000, Q = 1, notch_fs = 48000, notch_b = [1/2, 0, 1/2],
          notch_a = [1, 0, 0]\<rparr> \<and>
   NotchFilter_magnitude_db
     \<lparr>f_notch = 12000, Q = 1, notch_fs = 48000, notch_b = [1/2, 0, 1/2], notch_a = [1, 0, 0]\<rparr>
     [12000] 48000 = [NegInf]"
  by (simp add: NotchFilter_init_def sample_iirnotch_def NotchFilter_magnitude_db_def
      NotchFilter_frequency_response_def freqz_def db_of_response_def np_log10_def
      exp_minus_quarter_turn Let_def)

end
